theory Spec2Isabelle
  imports Main "HOL-Library.Sublist" "HOL-Library.AList"
begin

section \<open>Data carried by requests and responses\<close>

text \<open>
  JSON values as \<open>bodyParser.json()\<close> delivers them. Numbers are the integers that
  JavaScript holds exactly (up to \<open>2^53\<close> in absolute value); a number with a fraction or
  beyond that range is not modelled.
\<close>

datatype json =
    JNull
  | JBool bool
  | JNumber int
  | JString string
  | JArray "json list"
  | JObject "(string \<times> json) list"

text \<open>
  \<open>req.body\<close>: a string when \<open>bodyParser.text()\<close> parsed a text/plain body; an object or
  an array when \<open>bodyParser.json()\<close> parsed a JSON text; the empty object when nothing was
  parsed.
\<close>

datatype body =
    TextBody string
  | JsonBody "(string \<times> json) list"
  | ArrayBody "json list"

text \<open>
  A value of \<open>req.query\<close>: a string, or, for a parameter that is repeated or written with
  brackets, an array or an object.
\<close>

datatype qvalue =
    QString string
  | QArray "qvalue list"
  | QObject "(string \<times> qvalue) list"

text \<open>
  A request as a route handler receives it, after the middleware before the routes has
  passed it on. \<open>url\<close> is \<open>req.url\<close>, the path with the query string; \<open>params\<close> are the
  route parameters as Express has read them from the path.
\<close>

record request =
  url :: string
  params :: "(string \<times> string) list"
  query :: "(string \<times> qvalue) list"
  body :: body

text \<open>
  \<open>req.body.k\<close>, for the names \<open>k\<close> the routes read: a string and an array have no such
  property (\<open>undefined\<close>, \<open>None\<close>).
\<close>

fun member_of :: "body \<Rightarrow> string \<Rightarrow> json option" where
  "member_of (TextBody s) k = None"
| "member_of (JsonBody fs) k = map_of fs k"
| "member_of (ArrayBody xs) k = None"

text \<open>The decimal digits of a number, as JavaScript writes an integer.\<close>

fun decimal :: "nat \<Rightarrow> string" where
  "decimal n =
     (if n < 10 then [''0123456789'' ! n]
      else decimal (n div 10) @ [''0123456789'' ! (n mod 10)])"

declare decimal.simps [simp del]

definition number :: "int \<Rightarrow> string" where
  "number n = (if n < 0 then ''-'' @ decimal (nat (- n)) else decimal (nat n))"

text \<open>
  \<open>req.body.toString()\<close>. A string is itself. An object parsed from JSON is
  \<open>[object Object]\<close> by \<open>Object.prototype.toString\<close>, unless it has a member of its own
  named \<open>toString\<close>: that member is no function, and the call throws a \<open>TypeError\<close>
  (\<open>None\<close>). An array is its elements joined with commas (\<open>Array.prototype.join\<close>), where
  \<open>null\<close> is the empty string, a nested array is joined in turn, and an object is
  converted as above.
\<close>

fun string_of :: "json \<Rightarrow> string option"
  and joined_of :: "json list \<Rightarrow> string option" where
  "string_of JNull = Some []"
| "string_of (JBool b) = Some (if b then ''true'' else ''false'')"
| "string_of (JNumber n) = Some (number n)"
| "string_of (JString s) = Some s"
| "string_of (JArray xs) = joined_of xs"
| "string_of (JObject fs) =
     (if map_of fs ''toString'' = None then Some ''[object Object]'' else None)"
| "joined_of [] = Some []"
| "joined_of [x] = string_of x"
| "joined_of (x # y # ys) =
     (case string_of x of
        None \<Rightarrow> None
      | Some a \<Rightarrow>
          (case joined_of (y # ys) of
             None \<Rightarrow> None
           | Some b \<Rightarrow> Some (a @ '','' @ b)))"

fun toString :: "body \<Rightarrow> string option" where
  "toString (TextBody s) = Some s"
| "toString (JsonBody fs) = string_of (JObject fs)"
| "toString (ArrayBody xs) = joined_of xs"

text \<open>JavaScript truthiness of a property that may be \<open>undefined\<close>: what \<open>!x\<close> negates.\<close>

fun truthy :: "json option \<Rightarrow> bool" where
  "truthy None = False"
| "truthy (Some JNull) = False"
| "truthy (Some (JBool b)) = b"
| "truthy (Some (JNumber n)) = (n \<noteq> 0)"
| "truthy (Some (JString s)) = (s \<noteq> [])"
| "truthy (Some (JArray xs)) = True"
| "truthy (Some (JObject fs)) = True"

text \<open>
  \<open>req.params.k\<close>. A route with the parameter \<open>:k\<close> only matches when the parameter is
  present; the empty string stands for a parameter the route does not have.
\<close>

definition param :: "request \<Rightarrow> string \<Rightarrow> string" where
  "param req k = (case map_of (params req) k of Some v \<Rightarrow> v | None \<Rightarrow> [])"

text \<open>
  Modelled from the spec: \<open>lib/error/error\<close> is not among the sources. The error taxonomy
  of the spec that the routes use, and \<open>errorMessage(code, text)\<close> as the uninterpreted
  envelope \<open>ErrorMessage code text\<close>.
\<close>

datatype errorCodes = BadRequest | NotFound | Conflict | WriteError

datatype payload =
    Empty
  | Text string
  | Json json
  | ErrorMessage errorCodes string

text \<open>A response as it is sent: the status and the body.\<close>

record response =
  statusCode :: nat
  payload :: payload

text \<open>
  What a handler leaves behind for its request: a response that was sent, nothing (a
  promise that rejected with no \<open>catch\<close>, or that never settled), or an exception that
  left the handler.
\<close>

datatype reply = Sent response | Unanswered | Thrown string

text \<open>The control messages of \<open>workerPool.broadcast\<close>.\<close>

datatype message = templatesUpdated | constantsUpdated string

section \<open>The template directory and the cache in front of it\<close>

text \<open>
  A directory is the list of its files, each under its relative path (the path's
  components, outermost first) with its text. Folders are the prefixes of the paths; an
  empty folder is not represented.
\<close>

type_synonym path = "string list"
type_synonym directory = "(path \<times> string) list"

text \<open>The components of a relative path written with \<open>/\<close>.\<close>

fun segments :: "string \<Rightarrow> path" where
  "segments [] = [[]]"
| "segments (c # cs) =
     (if c = CHR ''/'' then [] # segments cs
      else (case segments cs of [] \<Rightarrow> [[c]] | s # ss \<Rightarrow> (c # s) # ss))"

text \<open>
  Modelled from the spec: \<open>lib/fsCache/cache\<close> is not among the sources. Section 4.1 of the
  spec: a read-through, write-through cache over a directory of named texts. The cache
  holds the entries it has read or written; the directory is the authority for the rest.
  \<^item> \<open>has(name)\<close>: existence check;
  \<^item> \<open>get(name)\<close>: the content, \<open>NotFound\<close> if absent;
  \<^item> \<open>set(name, content)\<close>: writes through to the directory and updates the entry, and
    reports whether the name existed before; the write can fail (\<open>WriteError\<close>), which
    the argument \<open>writable\<close> decides;
  \<^item> \<open>clear()\<close>: drops every entry and leaves the directory alone;
  \<^item> \<open>keys()\<close>: the names as the directory has them now; the access can fail, which the
    argument \<open>readable\<close> decides.
\<close>

type_synonym entries = "(string \<times> string) list"

definition cache_has :: "string \<Rightarrow> directory \<Rightarrow> entries \<Rightarrow> bool" where
  "cache_has file d c =
     (case map_of c file of
        Some v \<Rightarrow> True
      | None \<Rightarrow> (case map_of d (segments file) of Some v \<Rightarrow> True | None \<Rightarrow> False))"

definition cache_get :: "string \<Rightarrow> directory \<Rightarrow> entries \<Rightarrow> errorCodes + string \<times> entries" where
  "cache_get file d c =
     (case map_of c file of
        Some v \<Rightarrow> Inr (v, c)
      | None \<Rightarrow>
          (case map_of d (segments file) of
             Some v \<Rightarrow> Inr (v, AList.update file v c)
           | None \<Rightarrow> Inl NotFound))"

definition cache_set ::
  "string \<Rightarrow> string \<Rightarrow> bool \<Rightarrow> directory \<Rightarrow> entries \<Rightarrow> errorCodes + bool \<times> directory \<times> entries" where
  "cache_set file content writable d c =
     (if writable
      then Inr (cache_has file d c,
                AList.update (segments file) content d,
                AList.update file content c)
      else Inl WriteError)"

definition cache_clear :: "entries \<Rightarrow> entries" where
  "cache_clear c = []"

text \<open>A relative path written with \<open>/\<close>.\<close>

fun joined :: "path \<Rightarrow> string" where
  "joined [] = []"
| "joined [x] = x"
| "joined (x # y # ys) = x @ ''/'' @ joined (y # ys)"

definition cache_keys :: "bool \<Rightarrow> directory \<Rightarrow> errorCodes + string list" where
  "cache_keys readable d = (if readable then Inr (map (\<lambda>(p, c). joined p) d) else Inl NotFound)"

section \<open>The version-controlled store\<close>

text \<open>
  Modelled from the spec: \<open>lib/git-filesystem/git-filesystem\<close> is not among the sources.
  Section 4.2 of the spec: one repository over the template directory, with
  \<^item> \<open>getBranches()\<close>: the branch descriptors (a name and the optional base branch);
  \<^item> \<open>getStatus()\<close>: the ordered list of the paths changed since the last commit;
  \<^item> \<open>checkoutBranch(name)\<close>: \<open>NotFound\<close> for an unknown branch; else switches, and
    resets the working template set to the committed state of that branch. The
    argument \<open>fault\<close> is a failure of the switch itself, with its reason;
  \<^item> \<open>commitAllChanges(message, authorName, authorEmail)\<close>: all changes of the working
    tree as one commit; a commit with no change is refused. The argument \<open>fault\<close> is a
    failure of the commit itself (a race of commits), with its reason.
  Each operation returns \<open>Inl reason\<close> where its promise rejects.
\<close>

record branch =
  name :: string
  baseBranch :: "string option"

record commit =
  message :: "json option"
  authorName :: "json option"
  authorEmail :: "json option"
  changed :: "path list"

record store =
  repoName :: string
  branches :: "branch list"
  head :: string
  committed :: "(string \<times> directory) list"
  history :: "commit list"

definition tree_of :: "store \<Rightarrow> string \<Rightarrow> directory" where
  "tree_of s b = (case map_of (committed s) b of Some t \<Rightarrow> t | None \<Rightarrow> [])"

definition getBranches :: "store \<Rightarrow> branch list" where
  "getBranches s = branches s"

definition getStatus :: "directory \<Rightarrow> store \<Rightarrow> path list" where
  "getStatus d s =
     filter (\<lambda>p. map_of d p \<noteq> map_of (tree_of s (head s)) p)
       (remdups (map fst d @ map fst (tree_of s (head s))))"

definition checkoutBranch ::
  "string \<Rightarrow> string option \<Rightarrow> directory \<Rightarrow> store \<Rightarrow> string + directory \<times> store" where
  "checkoutBranch b fault d s =
     (if b \<notin> set (map name (branches s)) then Inl ''NotFound''
      else (case fault of
              Some reason \<Rightarrow> Inl reason
            | None \<Rightarrow> Inr (tree_of s b, s\<lparr>head := b\<rparr>)))"


section \<open>The state the routes share\<close>

text \<open>
  \<open>files\<close> is the directory at \<open>constants.TEMPLATE_FILES_LOCATION\<close>, which the template
  cache and the store are both opened on; \<open>templateCache\<close> the entries the template cache
  holds; \<open>repo\<close> the store \<open>gfs\<close>; \<open>sent\<close> the messages given to
  \<open>workerPool.broadcast\<close>, oldest first.
\<close>

record world =
  files :: directory
  templateCache :: entries
  repo :: store
  sent :: "message list"

definition broadcast :: "message \<Rightarrow> world \<Rightarrow> world" where
  "broadcast m w = w\<lparr>sent := sent w @ [m]\<rparr>"

section \<open>The routes\<close>

subsection \<open>\<open>app.use('/git', ...)\<close>\<close>

text \<open>
  The middleware either calls \<open>next()\<close>, with the request as it came, or rewrites
  \<open>req.url\<close>, gives the request to \<open>gfs.repos.handle\<close> and broadcasts.
  \<open>gfs.repos.handle\<close> is the git server of the store: it is the argument \<open>handle\<close>, which
  may change the directory and the repository and answers the request (\<open>None\<close>: it sends
  no response). It holds no reference to the template cache or the worker pool. It is
  taken to return to the middleware, which has no handler for an exception from it.
\<close>

datatype passed = Next request | Handled request "response option"

definition git ::
  "(request \<Rightarrow> directory \<times> store \<Rightarrow> (directory \<times> store) \<times> response option) \<Rightarrow>
   request \<Rightarrow> world \<Rightarrow> world \<times> passed" where
  "git handle req w =
     (if \<not> prefix ''/info'' (url req) \<and>
         url req \<noteq> ''/git-upload-pack'' \<and>
         url req \<noteq> ''/git-receive-pack''
      then (w, Next req)
      else
        (let req' = req\<lparr>url := ''/'' @ repoName (repo w) @ url req\<rparr> in
         case handle req' (files w, repo w) of
           ((d', s'), r) \<Rightarrow>
             (broadcast templatesUpdated (w\<lparr>files := d', repo := s'\<rparr>), Handled req' r)))"

subsection \<open>\<open>POST /api/templates/git/checkout\<close>\<close>

definition post_checkout :: "string option \<Rightarrow> request \<Rightarrow> world \<Rightarrow> world \<times> reply" where
  "post_checkout fault req w =
     (if \<not> truthy (member_of (body req) ''name'')
      then (w, Sent \<lparr>statusCode = 400,
                     payload = ErrorMessage BadRequest ''Branch name required''\<rparr>)
      else
        (case member_of (body req) ''name'' of
           Some (JString b) \<Rightarrow>
             if b \<in> set (map name (getBranches (repo w)))
             then
               (case checkoutBranch b fault (files w) (repo w) of
                  Inr (d', s') \<Rightarrow>
                    (broadcast templatesUpdated
                       (w\<lparr>files := d', repo := s',
                          templateCache := cache_clear (templateCache w)\<rparr>),
                     Sent \<lparr>statusCode = 200, payload = Empty\<rparr>)
                | Inl errReason \<Rightarrow>
                    (w, Sent \<lparr>statusCode = 409,
                              payload = ErrorMessage Conflict
                                (''Unable to checkout branch: '' @ errReason)\<rparr>))
             else (w, Sent \<lparr>statusCode = 404,
                            payload = ErrorMessage NotFound ''Branch not found''\<rparr>)
         | _ \<Rightarrow> (w, Sent \<lparr>statusCode = 404,
                          payload = ErrorMessage NotFound ''Branch not found''\<rparr>)))"

text \<open>
  A name that is truthy and not a string is never \<open>included\<close> in the list of branch
  names, which are strings: the last case.
\<close>

subsection \<open>\<open>POST /api/templates/git/commit\<close>\<close>


subsection \<open>\<open>GET\<close> and \<open>PUT /api/templates/:file(*)\<close>\<close>

definition get_template :: "request \<Rightarrow> world \<Rightarrow> world \<times> reply" where
  "get_template req w =
     (case cache_get (param req ''file'') (files w) (templateCache w) of
        Inr (content, c') \<Rightarrow>
          (w\<lparr>templateCache := c'\<rparr>, Sent \<lparr>statusCode = 200, payload = Text content\<rparr>)
      | Inl e \<Rightarrow>
          (w, Sent \<lparr>statusCode = 404,
                    payload = ErrorMessage NotFound ''Template not found''\<rparr>))"

text \<open>
  \<open>exists\<close> is what \<open>templateCache.has\<close> resolved with, before the write; what
  \<open>templateCache.set\<close> resolves with is not used. \<open>req.body.toString()\<close> is evaluated in
  the \<open>then\<close> of \<open>has\<close>, before \<open>set\<close> is called: where it throws, that promise rejects
  with no \<open>catch\<close>, nothing is written or broadcast and the request is left unanswered.
\<close>

definition put_template :: "bool \<Rightarrow> request \<Rightarrow> world \<Rightarrow> world \<times> reply" where
  "put_template writable req w =
     (let exists = cache_has (param req ''file'') (files w) (templateCache w) in
      case toString (body req) of
        None \<Rightarrow> (w, Unanswered)
      | Some content \<Rightarrow>
          (case cache_set (param req ''file'') content writable (files w) (templateCache w) of
             Inr (existed, d', c') \<Rightarrow>
               (broadcast templatesUpdated (w\<lparr>files := d', templateCache := c'\<rparr>),
                Sent \<lparr>statusCode = (if exists then 200 else 201), payload = Empty\<rparr>)
           | Inl e \<Rightarrow>
               (w, Sent \<lparr>statusCode = 403,
                         payload = ErrorMessage WriteError
                           (''Unable to write template '' @ param req ''file'')\<rparr>)))"

subsection \<open>The \<open>GET\<close> routes under \<open>/api/templates\<close>, in the order of their registration\<close>

text \<open>
  \<open>GET /api/templates/git/status\<close>, \<open>GET /api/templates/git/branches\<close> and
  \<open>GET /api/templates\<close> are registered before \<open>GET /api/templates/:file(*)\<close>, and the
  first route whose path matches answers. Express matches the path of the url (what
  stands before the query string) without regard to the case of letters and with or
  without one trailing slash.
\<close>

definition lower :: "string \<Rightarrow> string" where
  "lower s =
     map (\<lambda>c. case map_of (zip ''ABCDEFGHIJKLMNOPQRSTUVWXYZ'' ''abcdefghijklmnopqrstuvwxyz'') c of
                Some l \<Rightarrow> l
              | None \<Rightarrow> c) s"

definition path_of :: "string \<Rightarrow> string" where
  "path_of u = takeWhile (\<lambda>c. c \<noteq> CHR ''?'') u"

definition hits :: "string \<Rightarrow> string \<Rightarrow> bool" where
  "hits route u \<longleftrightarrow> lower (path_of u) = route \<or> lower (path_of u) = route @ ''/''"

datatype route = StatusRoute | BranchesRoute | ListRoute | TemplateRoute | NoRoute

definition route_get :: "string \<Rightarrow> route" where
  "route_get u =
     (if hits ''/api/templates/git/status'' u then StatusRoute
      else if hits ''/api/templates/git/branches'' u then BranchesRoute
      else if hits ''/api/templates'' u then ListRoute
      else if prefix ''/api/templates/'' (lower (path_of u)) then TemplateRoute
      else NoRoute)"

text \<open>
  \<open>res.json(status)\<close> and \<open>res.json(branches)\<close>: the changed paths as an array of strings,
  the branches as an array of their descriptors.
\<close>

definition get_status :: "request \<Rightarrow> world \<Rightarrow> world \<times> reply" where
  "get_status req w =
     (w, Sent \<lparr>statusCode = 200,
               payload = Json (JArray (map (\<lambda>p. JString (joined p))
                                         (getStatus (files w) (repo w))))\<rparr>)"

definition branch_json :: "branch \<Rightarrow> json" where
  "branch_json b =
     JObject ((''name'', JString (name b)) #
              (case baseBranch b of None \<Rightarrow> [] | Some x \<Rightarrow> [(''baseBranch'', JString x)]))"

definition get_branches :: "request \<Rightarrow> world \<Rightarrow> world \<times> reply" where
  "get_branches req w =
     (w, Sent \<lparr>statusCode = 200,
               payload = Json (JArray (map branch_json (getBranches (repo w))))\<rparr>)"

definition get_templates :: "bool \<Rightarrow> request \<Rightarrow> world \<Rightarrow> world \<times> reply" where
  "get_templates readable req w =
     (case cache_keys readable (files w) of
        Inr fs \<Rightarrow>
          (w, Sent \<lparr>statusCode = 200,
                    payload = Json (JObject
                      [(''templates'',
                        JArray (map (\<lambda>f. JObject [(''templateName'', JString f)]) fs))])\<rparr>)
      | Inl e \<Rightarrow>
          (w, Sent \<lparr>statusCode = 404,
                    payload = ErrorMessage NotFound ''Unable to access templates location''\<rparr>))"

text \<open>
  A \<open>GET\<close> request to the application: the answer of the first of these routes that
  matches, and \<open>None\<close> for a path that none of them matches.
\<close>

definition app_get :: "bool \<Rightarrow> request \<Rightarrow> world \<Rightarrow> (world \<times> reply) option" where
  "app_get readable req w =
     (case route_get (url req) of
        StatusRoute \<Rightarrow> Some (get_status req w)
      | BranchesRoute \<Rightarrow> Some (get_branches req w)
      | ListRoute \<Rightarrow> Some (get_templates readable req w)
      | TemplateRoute \<Rightarrow> Some (get_template req w)
      | NoRoute \<Rightarrow> None)"

subsection \<open>\<open>POST /api/convert/hl7\<close> and \<open>POST /api/convert/hl7/:template(*)\<close>\<close>

text \<open>
  The job given to \<open>workerPool.exec\<close> and the result a worker reports:
  \<open>{status, resultMsg}\<close>, where \<open>resultMsg\<close> is a structured document or a structured
  error (section 3 of the spec), and \<open>resultMsg.fhirResource\<close> the inner document.
  \<open>exec\<close> is an argument: the worker's answer to the job, \<open>None\<close> when the promise does
  not resolve.
\<close>

datatype job =
    ConvertHl7 (messageBase64: "json option") (templateBase64: "json option")
      (replacementDictionaryBase64: "json option") (templatesMapBase64: "json option")
  | ConvertHl7Template (messageContent: string) (templateName: string)

record result =
  status :: nat
  resultMsg :: "(string \<times> json) list"

text \<open>
  \<open>res.status(n)\<close> followed by \<open>res.json(x)\<close>, where \<open>x\<close> may be \<open>undefined\<close>. Writing the
  head throws a \<open>RangeError\<close> for a status that is not from 100 to 999 (\<open>Inl\<close>). A
  response with a status below 200, or 204, 205 or 304, is sent with no body; so is
  \<open>undefined\<close>.
\<close>

definition bodiless :: "nat \<Rightarrow> bool" where
  "bodiless n \<longleftrightarrow> n < 200 \<or> n = 204 \<or> n = 205 \<or> n = 304"

definition res_json :: "nat \<Rightarrow> json option \<Rightarrow> string + response" where
  "res_json n x =
     (if n < 100 \<or> 999 < n then Inl ''RangeError''
      else Inr \<lparr>statusCode = n,
                payload = (if bodiless n then Empty
                           else (case x of None \<Rightarrow> Empty | Some v \<Rightarrow> Json v))\<rparr>)"

text \<open>
  The \<open>then\<close> of both routes. It has no \<open>catch\<close>: where \<open>res.json\<close> throws, the request
  is left unanswered. \<open>req.query['api-version'] === '1.0'\<close> holds of the string \<open>1.0\<close>
  alone.
\<close>

definition respond :: "request \<Rightarrow> result \<Rightarrow> reply" where
  "respond req r =
     (case (if map_of (query req) ''api-version'' = Some (QString ''1.0'')
            then res_json (status r) (Some (JObject (resultMsg r)))
            else if status r = 200
            then res_json (status r) (map_of (resultMsg r) ''fhirResource'')
            else res_json (status r) (Some (JObject (resultMsg r)))) of
        Inr response \<Rightarrow> Sent response
      | Inl e \<Rightarrow> Unanswered)"

definition post_convert_hl7 :: "(job \<Rightarrow> result option) \<Rightarrow> request \<Rightarrow> reply" where
  "post_convert_hl7 exec req =
     (case exec (ConvertHl7 (member_of (body req) ''messageBase64'')
                   (member_of (body req) ''templateBase64'')
                   (member_of (body req) ''replacementDictionaryBase64'')
                   (member_of (body req) ''templatesMapBase64'')) of
        Some r \<Rightarrow> respond req r
      | None \<Rightarrow> Unanswered)"

text \<open>
  On this route \<open>req.body.toString()\<close> is evaluated in the handler itself, before
  \<open>workerPool.exec\<close> is called: where it throws, the exception leaves the handler.
\<close>

definition post_convert_hl7_template :: "(job \<Rightarrow> result option) \<Rightarrow> request \<Rightarrow> reply" where
  "post_convert_hl7_template exec req =
     (case toString (body req) of
        None \<Rightarrow> Thrown ''TypeError''
      | Some content \<Rightarrow>
          (case exec (ConvertHl7Template content (param req ''template'')) of
             Some r \<Rightarrow> respond req r
           | None \<Rightarrow> Unanswered))"

subsection \<open>\<open>POST /api/UpdateBaseTemplates\<close>\<close>

text \<open>
  The file-system calls of the route, on a directory as above. A path is a file where the
  directory has an entry for it and a folder where it has entries below it. Each call
  returns \<open>Inl code\<close> where it throws.
  \<^item> \<open>fse.ensureDirSync\<close> finds or makes a folder, and throws where a file has the name;
  \<^item> \<open>fs.readdirSync\<close> lists the names directly under the directory (in the source the
    new temporary folder, still empty, is one of them; its name starts with a dot, and the
    loop passes such names over);
  \<^item> \<open>fse.renameSync\<close> is \<open>rename(2)\<close>: a file replaces a file, a folder moves with all
    below it, and a folder that has entries is never replaced.
\<close>

definition below :: "path \<Rightarrow> directory \<Rightarrow> bool" where
  "below q d = list_ex (\<lambda>(p, c). strict_prefix q p) d"

definition ensureDirSync :: "path \<Rightarrow> directory \<Rightarrow> string + directory" where
  "ensureDirSync q d = (if map_of d q \<noteq> None then Inl ''EEXIST'' else Inr d)"

definition readdirSync :: "directory \<Rightarrow> string list" where
  "readdirSync d = remdups (concat (map (\<lambda>(p, c). take 1 p) d))"

definition renameSync :: "path \<Rightarrow> path \<Rightarrow> directory \<Rightarrow> string + directory" where
  "renameSync old new d =
     (if map_of d old = None \<and> \<not> below old d then Inl ''ENOENT''
      else if old = new then Inr d
      else if strict_prefix old new then Inl ''EINVAL''
      else if map_of d old \<noteq> None
      then
        (if below new d then Inl ''EISDIR''
         else Inr (map (\<lambda>(p, c). if p = old then (new, c) else (p, c))
                     (filter (\<lambda>(p, c). p \<noteq> new) d)))
      else if map_of d new \<noteq> None then Inl ''ENOTDIR''
      else if below new d then Inl ''ENOTEMPTY''
      else Inr (map (\<lambda>(p, c). if prefix old p then (new @ drop (length old) p, c) else (p, c)) d))"

text \<open>
  The \<open>forEach\<close> over the existing names: every name that does not start with a dot is
  renamed into the temporary folder. An exception ends the loop and leaves the directory
  as the renames so far made it.
\<close>

fun forEach_rename :: "string \<Rightarrow> string list \<Rightarrow> directory \<Rightarrow> directory \<times> string option" where
  "forEach_rename tempFolderName [] d = (d, None)"
| "forEach_rename tempFolderName (fl # fls) d =
     (if \<not> prefix ''.'' fl
      then
        (case renameSync [fl] [tempFolderName, fl] d of
           Inl e \<Rightarrow> (d, Some e)
         | Inr d' \<Rightarrow> forEach_rename tempFolderName fls d')
      else forEach_rename tempFolderName fls d)"

text \<open>
  \<open>ncp(source, destination, callback)\<close> copies every file of the source over the
  destination. Its outcome is an argument: \<open>Copied\<close>, or \<open>CopyError text missing\<close>, an
  error whose \<open>message\<close> is \<open>text\<close>, with the paths of the source it did not copy.
\<close>

datatype ncp_outcome = Copied | CopyError string "path list"

definition ncp :: "directory \<Rightarrow> directory \<Rightarrow> ncp_outcome \<Rightarrow> directory" where
  "ncp source destination outcome =
     (case outcome of
        Copied \<Rightarrow> AList.merge destination source
      | CopyError text missing \<Rightarrow>
          AList.merge destination (filter (\<lambda>(p, c). p \<notin> set missing) source))"

text \<open>
  \<open>now\<close> is \<open>new Date().getTime()\<close>, which the template literal writes in decimal
  digits, and \<open>base\<close> the directory at \<open>constants.BASE_TEMPLATE_FILES_LOCATION\<close>.
\<close>

definition post_UpdateBaseTemplates ::
  "nat \<Rightarrow> directory \<Rightarrow> ncp_outcome \<Rightarrow> world \<Rightarrow> world \<times> reply" where
  "post_UpdateBaseTemplates now base outcome w =
     (let tempFolderName = ''.temp'' @ decimal now in
      case ensureDirSync [tempFolderName] (files w) of
        Inl e \<Rightarrow> (w, Thrown e)
      | Inr d \<Rightarrow>
          (case forEach_rename tempFolderName (readdirSync d) d of
             (d', Some e) \<Rightarrow> (w\<lparr>files := d'\<rparr>, Thrown e)
           | (d', None) \<Rightarrow>
               (case outcome of
                  CopyError text missing \<Rightarrow>
                    (w\<lparr>files := ncp base d' outcome\<rparr>,
                     Sent \<lparr>statusCode = 403, payload = ErrorMessage WriteError text\<rparr>)
                | Copied \<Rightarrow>
                    (broadcast templatesUpdated
                       (w\<lparr>files := ncp base d' outcome,
                          templateCache := cache_clear (templateCache w)\<rparr>),
                     Sent \<lparr>statusCode = 200, payload = Empty\<rparr>))))"

section \<open>Notions for the properties of the reset\<close>

text \<open>
  A path is hidden when its first name starts with a dot (the empty path counts as
  hidden). \<open>aside tmp\<close> is where the reset puts a file: a hidden file stays, every other
  file goes to the same path below the folder \<open>tmp\<close>.
\<close>

definition hidden :: "path \<Rightarrow> bool" where
  "hidden p = (case p of [] \<Rightarrow> True | fl # q \<Rightarrow> prefix ''.'' fl)"

definition aside :: "string \<Rightarrow> path \<times> string \<Rightarrow> path \<times> string" where
  "aside tmp e = (if hidden (fst e) then e else (tmp # fst e, snd e))"

text \<open>Nothing is at the path \<open>q\<close> or below it.\<close>

definition absent :: "path \<Rightarrow> directory \<Rightarrow> bool" where
  "absent q d = (\<not> list_ex (\<lambda>(p, c). prefix q p) d)"

text \<open>No file has the empty path, and no file has entries below it.\<close>

definition well_formed :: "directory \<Rightarrow> bool" where
  "well_formed d = list_all (\<lambda>(p, c). p \<noteq> [] \<and> \<not> below p d) d"

text \<open>
  For the proof of the loop: the effect of one rename on a file, the effect of the renames
  for a list of names, and what a name needs for its rename to go through (it is there,
  its place in the temporary folder is free, and a file of that name has nothing below
  it).
\<close>

definition moved :: "string \<Rightarrow> string \<Rightarrow> path \<times> string \<Rightarrow> path \<times> string" where
  "moved tmp fl e = (if prefix [fl] (fst e) then (tmp # fst e, snd e) else e)"

definition taken :: "string \<Rightarrow> string list \<Rightarrow> path \<times> string \<Rightarrow> path \<times> string" where
  "taken tmp fls e =
     (if \<exists>fl \<in> set fls. \<not> prefix ''.'' fl \<and> prefix [fl] (fst e) then (tmp # fst e, snd e) else e)"

definition ready :: "string \<Rightarrow> string \<Rightarrow> directory \<Rightarrow> bool" where
  "ready tmp fl d \<longleftrightarrow>
     (\<exists>e \<in> set d. prefix [fl] (fst e)) \<and>
     (\<forall>e \<in> set d. \<not> prefix [tmp, fl] (fst e)) \<and>
     ((\<exists>e \<in> set d. fst e = [fl]) \<longrightarrow> (\<forall>e \<in> set d. prefix [fl] (fst e) \<longrightarrow> fst e = [fl]))"

section \<open>Sample inputs\<close>

definition sample_store :: store where
  "sample_store =
     \<lparr>repoName = ''templates'',
      branches = [\<lparr>name = ''master'', baseBranch = None\<rparr>,
                  \<lparr>name = ''dev'', baseBranch = Some ''master''\<rparr>],
      head = ''master'',
      committed = [(''master'', [([''ADT_A01.hbs''], ''v1'')]),
                   (''dev'', [([''ADT_A01.hbs''], ''v2'')])],
      history = []\<rparr>"

definition sample_world :: world where
  "sample_world =
     \<lparr>files = [([''ADT_A01.hbs''], ''v1'')],
      templateCache = [(''ADT_A01.hbs'', ''v1'')],
      repo = sample_store,
      sent = []\<rparr>"


definition request_to :: "string \<Rightarrow> request" where
  "request_to u = \<lparr>url = u, params = [], query = [], body = JsonBody []\<rparr>"

definition request_naming :: "string \<Rightarrow> request" where
  "request_naming b =
     \<lparr>url = ''/api/templates/git/checkout'', params = [], query = [],
      body = JsonBody [(''name'', JString b)]\<rparr>"

definition put_request :: "string \<Rightarrow> string \<Rightarrow> request" where
  "put_request file content =
     \<lparr>url = ''/api/templates/'' @ file, params = [(''file'', file)], query = [],
      body = TextBody content\<rparr>"

definition get_request :: "string \<Rightarrow> request" where
  "get_request file =
     \<lparr>url = ''/api/templates/'' @ file, params = [(''file'', file)], query = [],
      body = JsonBody []\<rparr>"

text \<open>
  A git server that accepts a push to \<open>master\<close> on the receive-pack request and answers
  every other request without a change.
\<close>

definition serve ::
  "request \<Rightarrow> directory \<times> store \<Rightarrow> (directory \<times> store) \<times> response option" where
  "serve req ds =
     (if url req = ''/templates/git-receive-pack''
      then ((fst ds,
             (snd ds)\<lparr>committed :=
               AList.update ''master'' [([''ADT_A01.hbs''], ''v3'')] (committed (snd ds))\<rparr>),
            Some \<lparr>statusCode = 200, payload = Empty\<rparr>)
      else (ds, Some \<lparr>statusCode = 200, payload = Empty\<rparr>))"

text \<open>A worker that converts with success, and one that reports a bad request.\<close>

definition converted :: result where
  "converted =
     \<lparr>status = 200,
      resultMsg = [(''fhirResource'', JObject [(''resourceType'', JString ''Bundle'')]),
                   (''unusedSegments'', JArray [])]\<rparr>"

definition failed :: result where
  "failed = \<lparr>status = 400, resultMsg = [(''error'', JString ''Unable to parse'')]\<rparr>"

definition converting :: "job \<Rightarrow> result option" where
  "converting j = Some converted"

text \<open>Workers that report a status.\<close>

definition reporting :: "nat \<Rightarrow> job \<Rightarrow> result option" where
  "reporting n j = Some (converted\<lparr>status := n\<rparr>)"

text \<open>A request with \<open>api-version\<close> given twice.\<close>

definition twice_versioned :: request where
  "twice_versioned =
     \<lparr>url = ''/api/convert/hl7/ADT_A01.hbs?api-version=1.0&api-version=1.0'',
      params = [(''template'', ''ADT_A01.hbs'')],
      query = [(''api-version'', QArray [QString ''1.0'', QString ''1.0''])],
      body = TextBody ''MSH|''\<rparr>"

text \<open>A \<open>PUT\<close> with a JSON body that has a member named \<open>toString\<close>.\<close>

definition put_json :: "string \<Rightarrow> request" where
  "put_json file =
     \<lparr>url = ''/api/templates/'' @ file, params = [(''file'', file)], query = [],
      body = JsonBody [(''toString'', JNumber 1)]\<rparr>"

text \<open>A checkout request whose name is a number.\<close>

definition request_numbered :: request where
  "request_numbered =
     \<lparr>url = ''/api/templates/git/checkout'', params = [], query = [],
      body = JsonBody [(''name'', JNumber 5)]\<rparr>"

definition failing :: "job \<Rightarrow> result option" where
  "failing j = Some failed"

definition convert_request :: "string option \<Rightarrow> request" where
  "convert_request version =
     \<lparr>url = ''/api/convert/hl7/ADT_A01.hbs'',
      params = [(''template'', ''ADT_A01.hbs'')],
      query = (case version of Some v \<Rightarrow> [(''api-version'', QString v)] | None \<Rightarrow> []),
      body = TextBody ''MSH|''\<rparr>"

text \<open>A template directory with a hidden file and a folder, and a base set.\<close>

definition dotted_world :: world where
  "dotted_world =
     \<lparr>files = [([''.gitignore''], ''node_modules''),
               ([''ADT_A01.hbs''], ''v1''),
               ([''Sections'', ''PID.hbs''], ''pid'')],
      templateCache = [(''ADT_A01.hbs'', ''v1'')],
      repo = sample_store,
      sent = []\<rparr>"

definition base_templates :: directory where
  "base_templates = [([''ADT_A01.hbs''], ''base'')]"

section \<open>Facts shared by the proofs\<close>

lemma git_next:
  "\<not> prefix ''/info'' (url req) \<Longrightarrow> url req \<noteq> ''/git-upload-pack'' \<Longrightarrow>
   url req \<noteq> ''/git-receive-pack'' \<Longrightarrow> git handle req w = (w, Next req)"
  by (simp add: git_def)

lemma git_cache: "templateCache (fst (git handle req w)) = templateCache w"
  by (simp add: git_def broadcast_def Let_def split: prod.splits)

lemma git_sent:
  "prefix ''/info'' (url req) \<or> url req = ''/git-upload-pack'' \<or> url req = ''/git-receive-pack'' \<Longrightarrow>
   sent (fst (git handle req w)) = sent w @ [templatesUpdated]"
  by (auto simp add: git_def broadcast_def Let_def split: prod.splits)

section \<open>The git middleware\<close>

text \<open>
  C8. A request under \<open>/git\<close> whose url neither starts with \<open>/info\<close> nor is
  \<open>/git-upload-pack\<close> or \<open>/git-receive-pack\<close> goes to the next handler as it came: the
  middleware sends no response and changes neither the request nor the state.
\<close>

theorem git_passes_other_paths_on:
  assumes "\<not> prefix ''/info'' (url req)"
    and "url req \<noteq> ''/git-upload-pack''"
    and "url req \<noteq> ''/git-receive-pack''"
  shows "git handle req w = (w, Next req)"
  using assms by (rule git_next)

theorem git_passes_other_paths_on_witness:
  "git serve (request_to ''/HEAD'') sample_world = (sample_world, Next (request_to ''/HEAD''))"
  using git_passes_other_paths_on [of "request_to ''/HEAD''" serve sample_world]
  by (simp add: request_to_def)

text \<open>
  C9. Every recognised request under \<open>/git\<close> (ref discovery, upload-pack and
  receive-pack alike) broadcasts \<open>templatesUpdated\<close>, and no request under \<open>/git\<close> changes
  an entry of the template cache.
\<close>

theorem git_broadcasts_and_keeps_cache:
  "templateCache (fst (git handle req w)) = templateCache w \<and>
   (prefix ''/info'' (url req) \<or> url req = ''/git-upload-pack'' \<or>
    url req = ''/git-receive-pack'' \<longrightarrow>
      sent (fst (git handle req w)) = sent w @ [templatesUpdated])"
  by (simp add: git_cache git_sent)

theorem git_broadcasts_and_keeps_cache_witness:
  "templateCache (fst (git serve (request_to ''/info/refs?service=git-upload-pack'') sample_world))
     = [(''ADT_A01.hbs'', ''v1'')] \<and>
   sent (fst (git serve (request_to ''/info/refs?service=git-upload-pack'') sample_world))
     = [templatesUpdated] \<and>
   sent (fst (git serve (request_to ''/git-upload-pack'') sample_world)) = [templatesUpdated]"
  using
    git_broadcasts_and_keeps_cache
      [of serve "request_to ''/info/refs?service=git-upload-pack''" sample_world]
    git_broadcasts_and_keeps_cache [of serve "request_to ''/git-upload-pack''" sample_world]
  by (simp add: request_to_def sample_world_def)

text \<open>
  C1, as the code has it. A push (\<open>/git-receive-pack\<close>) broadcasts \<open>templatesUpdated\<close>, as
  a checkout does, and leaves the entries of the template cache as they were: the
  middleware does not clear the cache.
\<close>

theorem git_push_broadcasts_without_clearing:
  assumes "url req = ''/git-receive-pack''"
  shows "sent (fst (git handle req w)) = sent w @ [templatesUpdated] \<and>
         templateCache (fst (git handle req w)) = templateCache w"
  using assms by (simp add: git_cache git_sent)

theorem git_push_broadcasts_without_clearing_witness:
  "sent (fst (git serve (request_to ''/git-receive-pack'') sample_world)) = [templatesUpdated] \<and>
   templateCache (fst (git serve (request_to ''/git-receive-pack'') sample_world))
     = [(''ADT_A01.hbs'', ''v1'')]"
  using git_push_broadcasts_without_clearing
    [of "request_to ''/git-receive-pack''" serve sample_world]
  by (simp add: request_to_def sample_world_def)

text \<open>
  The claim C1 as it is written fails: after a push that changes the committed content of
  \<open>master\<close> the cache still holds its entry, where the checkout of a branch leaves the
  cache empty.
\<close>

theorem git_push_clears_cache_counterexample:
  "templateCache (fst (git serve (request_to ''/git-receive-pack'') sample_world))
     = [(''ADT_A01.hbs'', ''v1'')] \<and>
   committed (repo (fst (git serve (request_to ''/git-receive-pack'') sample_world)))
     = [(''master'', [([''ADT_A01.hbs''], ''v3'')]), (''dev'', [([''ADT_A01.hbs''], ''v2'')])] \<and>
   templateCache (fst (post_checkout None (request_naming ''dev'') sample_world)) = []"
  by (simp add: git_def serve_def request_to_def sample_world_def sample_store_def
      broadcast_def post_checkout_def request_naming_def getBranches_def checkoutBranch_def
      cache_clear_def)

lemma put_reply:
  assumes "toString (body req) = Some content"
  shows "snd (put_template writable req w) =
     Sent \<lparr>statusCode =
             (if writable
              then (if cache_has (param req ''file'') (files w) (templateCache w) then 200 else 201)
              else 403),
           payload =
             (if writable then Empty
              else ErrorMessage WriteError (''Unable to write template '' @ param req ''file''))\<rparr>"
  using assms by (simp add: put_template_def cache_set_def Let_def)

lemma put_world:
  assumes "toString (body req) = Some content"
  shows "fst (put_template writable req w) =
     (if writable
      then broadcast templatesUpdated
             (w\<lparr>files := AList.update (segments (param req ''file'')) content (files w),
                templateCache := AList.update (param req ''file'') content (templateCache w)\<rparr>)
      else w)"
  using assms by (simp add: put_template_def cache_set_def Let_def)

lemma put_thrown:
  assumes "toString (body req) = None"
  shows "put_template writable req w = (w, Unanswered)"
  using assms by (simp add: put_template_def Let_def)


lemma respond_in_range:
  assumes "100 \<le> status r" and "status r \<le> 999"
  shows "respond req r =
     Sent \<lparr>statusCode = status r,
           payload =
             (if bodiless (status r) then Empty
              else if map_of (query req) ''api-version'' = Some (QString ''1.0'')
              then Json (JObject (resultMsg r))
              else if status r = 200
              then (case map_of (resultMsg r) ''fhirResource'' of
                      None \<Rightarrow> Empty
                    | Some v \<Rightarrow> Json v)
              else Json (JObject (resultMsg r)))\<rparr>"
  using assms by (simp add: respond_def res_json_def)

section \<open>Writing and reading a template\<close>

text \<open>
  C4, as the code has it. A \<open>PUT\<close> of a template whose body has a string form (the call
  \<open>req.body.toString()\<close> returns) answers 201 when the name did not exist before the
  write and 200 when it did, as \<open>templateCache.has\<close> found it before the write; it answers
  403 with a \<open>WriteError\<close> when the write fails; and a write that succeeds broadcasts
  \<open>templatesUpdated\<close>.
\<close>

theorem put_template_status:
  assumes "toString (body req) = Some content"
  shows
    "snd (put_template writable req w) =
       Sent \<lparr>statusCode =
               (if writable
                then (if cache_has (param req ''file'') (files w) (templateCache w)
                      then 200 else 201)
                else 403),
             payload =
               (if writable then Empty
                else ErrorMessage WriteError
                       (''Unable to write template '' @ param req ''file''))\<rparr> \<and>
     (writable \<longrightarrow> sent (fst (put_template writable req w)) = sent w @ [templatesUpdated])"
  using assms by (simp add: put_reply put_world broadcast_def)

theorem put_template_status_witness:
  "snd (put_template True (put_request ''new.hbs'' ''t'') sample_world)
     = Sent \<lparr>statusCode = 201, payload = Empty\<rparr> \<and>
   sent (fst (put_template True (put_request ''new.hbs'' ''t'') sample_world)) = [templatesUpdated] \<and>
   snd (put_template True (put_request ''ADT_A01.hbs'' ''t'') sample_world)
     = Sent \<lparr>statusCode = 200, payload = Empty\<rparr> \<and>
   snd (put_template False (put_request ''new.hbs'' ''t'') sample_world)
     = Sent \<lparr>statusCode = 403,
             payload = ErrorMessage WriteError ''Unable to write template new.hbs''\<rparr>"
  using
    put_template_status [of "put_request ''new.hbs'' ''t''" "''t''" True sample_world]
    put_template_status [of "put_request ''ADT_A01.hbs'' ''t''" "''t''" True sample_world]
    put_template_status [of "put_request ''new.hbs'' ''t''" "''t''" False sample_world]
  by (simp add: put_request_def sample_world_def param_def cache_has_def)

text \<open>
  The claim C4 as it is written fails: a \<open>PUT\<close> whose JSON body has a member named
  \<open>toString\<close>, on a store that can be written, is left unanswered, and nothing is written
  or broadcast.
\<close>

theorem put_template_status_counterexample:
  "put_template True (put_json ''new.hbs'') sample_world = (sample_world, Unanswered)"
  by (simp add: put_template_def put_json_def Let_def)

text \<open>
  C10. A \<open>PUT\<close> whose write fails broadcasts nothing and leaves the state as it was. The
  broadcast is made on the state that the write has already changed, and only then.
\<close>

theorem put_template_failure_broadcasts_nothing:
  "(\<not> writable \<longrightarrow> fst (put_template writable req w) = w) \<and>
   sent (fst (put_template writable req w)) =
     (if writable \<and> toString (body req) \<noteq> None then sent w @ [templatesUpdated] else sent w) \<and>
   (\<forall>content existed d' c'.
      toString (body req) = Some content \<and>
      cache_set (param req ''file'') content writable (files w) (templateCache w)
        = Inr (existed, d', c') \<longrightarrow>
      fst (put_template writable req w) =
        broadcast templatesUpdated (w\<lparr>files := d', templateCache := c'\<rparr>))"
proof (cases "toString (body req)")
  case None
  then show ?thesis by (simp add: put_thrown)
next
  case (Some content)
  then show ?thesis by (simp add: put_world broadcast_def cache_set_def)
qed

theorem put_template_failure_broadcasts_nothing_witness:
  "fst (put_template False (put_request ''new.hbs'' ''t'') sample_world) = sample_world \<and>
   sent (fst (put_template False (put_request ''new.hbs'' ''t'') sample_world)) = [] \<and>
   sent (fst (put_template True (put_request ''new.hbs'' ''t'') sample_world)) = [templatesUpdated]"
  using
    put_template_failure_broadcasts_nothing [of False "put_request ''new.hbs'' ''t''" sample_world]
    put_template_failure_broadcasts_nothing [of True "put_request ''new.hbs'' ''t''" sample_world]
  by (simp add: sample_world_def put_request_def)

text \<open>
  C7, as the code has it. A \<open>PUT\<close> that writes the text \<open>C\<close> under a name, followed by a
  \<open>GET\<close> of the same name that reaches the route \<open>/api/templates/:file(*)\<close> (its path is
  not that of the list, the status or the branches route), answers 200 with exactly \<open>C\<close>
  through the same cache; and it does so after the cache has been cleared, from the
  directory the write went through to.
\<close>

theorem put_then_get_round_trip:
  assumes "writable"
    and "body req = TextBody C"
    and "param req' ''file'' = param req ''file''"
    and "route_get (url req') = TemplateRoute"
  shows
    "map_option snd (app_get readable req' (fst (put_template writable req w)))
       = Some (Sent \<lparr>statusCode = 200, payload = Text C\<rparr>) \<and>
     map_option snd
       (app_get readable req'
          ((fst (put_template writable req w))
             \<lparr>templateCache := cache_clear (templateCache (fst (put_template writable req w)))\<rparr>))
       = Some (Sent \<lparr>statusCode = 200, payload = Text C\<rparr>)"
proof -
  from assms(2) have "toString (body req) = Some C" by simp
  with assms(1,3,4) show ?thesis
    by (simp add: app_get_def put_world get_template_def cache_get_def cache_clear_def
        broadcast_def update_conv')
qed

theorem put_then_get_round_trip_witness:
  "route_get (url (get_request ''a/new.hbs'')) = TemplateRoute \<and>
   map_option snd
     (app_get True (get_request ''a/new.hbs'')
        (fst (put_template True (put_request ''a/new.hbs'' ''{{x}}'') sample_world)))
     = Some (Sent \<lparr>statusCode = 200, payload = Text ''{{x}}''\<rparr>)"
proof -
  have routed: "route_get (url (get_request ''a/new.hbs'')) = TemplateRoute"
    by (simp add: route_get_def hits_def lower_def path_of_def get_request_def)
  have written: "body (put_request ''a/new.hbs'' ''{{x}}'') = TextBody ''{{x}}''"
    by (simp add: put_request_def)
  have same: "param (get_request ''a/new.hbs'') ''file''
                = param (put_request ''a/new.hbs'' ''{{x}}'') ''file''"
    by (simp add: param_def get_request_def put_request_def)
  from put_then_get_round_trip [OF TrueI written same routed, of True sample_world]
  show ?thesis using routed by blast
qed

text \<open>
  The claim C7 as it is written fails for the name \<open>git/status\<close>: the \<open>PUT\<close> writes the
  template, and the \<open>GET\<close> of \<open>/api/templates/git/status\<close> is answered by the status
  route with the list of changed paths.
\<close>

theorem put_then_get_round_trip_counterexample:
  "snd (put_template True (put_request ''git/status'' ''{{x}}'') sample_world)
     = Sent \<lparr>statusCode = 201, payload = Empty\<rparr> \<and>
   route_get (url (get_request ''git/status'')) = StatusRoute \<and>
   app_get True (get_request ''git/status'')
     (fst (put_template True (put_request ''git/status'' ''{{x}}'') sample_world))
     = Some (get_status (get_request ''git/status'')
               (fst (put_template True (put_request ''git/status'' ''{{x}}'') sample_world))) \<and>
   map_option snd
     (app_get True (get_request ''git/status'')
        (fst (put_template True (put_request ''git/status'' ''{{x}}'') sample_world)))
     \<noteq> Some (Sent \<lparr>statusCode = 200, payload = Text ''{{x}}''\<rparr>)"
proof -
  have routed: "route_get (url (get_request ''git/status'')) = StatusRoute"
    by (simp add: route_get_def hits_def lower_def path_of_def get_request_def)
  have written: "snd (put_template True (put_request ''git/status'' ''{{x}}'') sample_world)
      = Sent \<lparr>statusCode = 201, payload = Empty\<rparr>"
    by (simp add: put_template_def put_request_def param_def cache_has_def cache_set_def
        sample_world_def Let_def)
  from routed written show ?thesis
    by (simp add: app_get_def get_status_def)
qed

section \<open>Conversion\<close>

text \<open>
  C5, as the code has it. On both conversion routes, when the worker reports a status
  from 100 to 999, the response has that status. Unless that status is one that is sent
  with no body (below 200, 204, 205, 304), the body is the whole result when
  \<open>api-version\<close> is the string \<open>1.0\<close>; otherwise it is the inner document
  (\<open>fhirResource\<close>) when the status is 200 and the whole result when it is not.
\<close>

theorem conversion_reply:
  assumes "100 \<le> status r" and "status r \<le> 999"
  shows
    "(exec (ConvertHl7 (member_of (body req) ''messageBase64'')
              (member_of (body req) ''templateBase64'')
              (member_of (body req) ''replacementDictionaryBase64'')
              (member_of (body req) ''templatesMapBase64'')) = Some r \<longrightarrow>
        post_convert_hl7 exec req =
          Sent \<lparr>statusCode = status r,
                payload =
                  (if bodiless (status r) then Empty
                   else if map_of (query req) ''api-version'' = Some (QString ''1.0'')
                   then Json (JObject (resultMsg r))
                   else if status r = 200
                   then (case map_of (resultMsg r) ''fhirResource'' of
                           None \<Rightarrow> Empty
                         | Some v \<Rightarrow> Json v)
                   else Json (JObject (resultMsg r)))\<rparr>) \<and>
     (toString (body req) = Some content \<and>
      exec (ConvertHl7Template content (param req ''template'')) = Some r \<longrightarrow>
        post_convert_hl7_template exec req =
          Sent \<lparr>statusCode = status r,
                payload =
                  (if bodiless (status r) then Empty
                   else if map_of (query req) ''api-version'' = Some (QString ''1.0'')
                   then Json (JObject (resultMsg r))
                   else if status r = 200
                   then (case map_of (resultMsg r) ''fhirResource'' of
                           None \<Rightarrow> Empty
                         | Some v \<Rightarrow> Json v)
                   else Json (JObject (resultMsg r)))\<rparr>)"
  using respond_in_range [OF assms, of req]
  by (simp add: post_convert_hl7_def post_convert_hl7_template_def)

theorem conversion_reply_witness:
  "post_convert_hl7_template converting (convert_request (Some ''1.0'')) =
     Sent \<lparr>statusCode = 200, payload = Json (JObject (resultMsg converted))\<rparr> \<and>
   post_convert_hl7_template converting (convert_request None) =
     Sent \<lparr>statusCode = 200,
           payload = Json (JObject [(''resourceType'', JString ''Bundle'')])\<rparr> \<and>
   post_convert_hl7_template failing (convert_request None) =
     Sent \<lparr>statusCode = 400, payload = Json (JObject [(''error'', JString ''Unable to parse'')])\<rparr> \<and>
   post_convert_hl7 converting (convert_request (Some ''0.9'')) =
     Sent \<lparr>statusCode = 200,
           payload = Json (JObject [(''resourceType'', JString ''Bundle'')])\<rparr> \<and>
   post_convert_hl7_template converting twice_versioned =
     Sent \<lparr>statusCode = 200,
           payload = Json (JObject [(''resourceType'', JString ''Bundle'')])\<rparr>"
proof -
  have good: "100 \<le> status converted" "status converted \<le> 999"
    by (simp_all add: converted_def)
  have bad: "100 \<le> status failed" "status failed \<le> 999"
    by (simp_all add: failed_def)
  show ?thesis
    using
      conversion_reply [OF good, of converting "convert_request (Some ''1.0'')" "''MSH|''"]
      conversion_reply [OF good, of converting "convert_request None" "''MSH|''"]
      conversion_reply [OF bad, of failing "convert_request None" "''MSH|''"]
      conversion_reply [OF good, of converting "convert_request (Some ''0.9'')" "''MSH|''"]
      conversion_reply [OF good, of converting twice_versioned "''MSH|''"]
    by (simp add: converting_def failing_def convert_request_def twice_versioned_def
        converted_def failed_def bodiless_def)
qed

text \<open>
  The claim C5 as it is written fails: for a worker that reports the status 1000 no
  response is sent at all, and for one that reports 204 the response has no body,
  whatever the version.
\<close>

theorem conversion_reply_counterexample:
  "post_convert_hl7_template (reporting 1000) (convert_request None) = Unanswered \<and>
   post_convert_hl7_template (reporting 204) (convert_request (Some ''1.0'')) =
     Sent \<lparr>statusCode = 204, payload = Empty\<rparr>"
  by (simp add: post_convert_hl7_template_def respond_def res_json_def bodiless_def
      reporting_def convert_request_def converted_def)

section \<open>Checkout and commit\<close>

text \<open>
  C3. A checkout request with no name (or a name that is not truthy) answers 400; one
  whose name is not among the names of the branches (a name that is no string is never
  among them) answers 404 and leaves the state (the cache, the working template set, the
  messages sent) as it was; one that names a branch of the list answers 200 when the
  checkout succeeds, with the cache cleared and \<open>templatesUpdated\<close> broadcast, and 409
  when the checkout fails, with the state as it was. Every request falls under one of
  the four.
\<close>

theorem checkout_replies:
  "(\<not> truthy (member_of (body req) ''name'') \<longrightarrow>
      post_checkout fault req w =
        (w, Sent \<lparr>statusCode = 400,
                  payload = ErrorMessage BadRequest ''Branch name required''\<rparr>)) \<and>
   (truthy (member_of (body req) ''name'') \<and>
    (\<forall>b. member_of (body req) ''name'' = Some (JString b) \<longrightarrow>
          b \<notin> set (map name (getBranches (repo w)))) \<longrightarrow>
      post_checkout fault req w =
        (w, Sent \<lparr>statusCode = 404, payload = ErrorMessage NotFound ''Branch not found''\<rparr>)) \<and>
   (truthy (member_of (body req) ''name'') \<and>
    member_of (body req) ''name'' = Some (JString b) \<and>
    b \<in> set (map name (getBranches (repo w))) \<and> fault = None \<longrightarrow>
      post_checkout fault req w =
        (w\<lparr>files := tree_of (repo w) b, repo := (repo w)\<lparr>head := b\<rparr>,
            templateCache := [], sent := sent w @ [templatesUpdated]\<rparr>,
         Sent \<lparr>statusCode = 200, payload = Empty\<rparr>)) \<and>
   (truthy (member_of (body req) ''name'') \<and>
    member_of (body req) ''name'' = Some (JString b) \<and>
    b \<in> set (map name (getBranches (repo w))) \<and> fault = Some reason \<longrightarrow>
      post_checkout fault req w =
        (w, Sent \<lparr>statusCode = 409,
                  payload = ErrorMessage Conflict (''Unable to checkout branch: '' @ reason)\<rparr>))"
proof -
  have c1: "\<not> truthy (member_of (body req) ''name'') \<longrightarrow>
      post_checkout fault req w =
        (w, Sent \<lparr>statusCode = 400,
                  payload = ErrorMessage BadRequest ''Branch name required''\<rparr>)"
    by (simp add: post_checkout_def)
  have c2: "truthy (member_of (body req) ''name'') \<and>
      (\<forall>b. member_of (body req) ''name'' = Some (JString b) \<longrightarrow>
            b \<notin> set (map name (getBranches (repo w)))) \<longrightarrow>
      post_checkout fault req w =
        (w, Sent \<lparr>statusCode = 404, payload = ErrorMessage NotFound ''Branch not found''\<rparr>)"
    by (auto simp add: post_checkout_def split: option.splits json.splits)
  have c3: "truthy (member_of (body req) ''name'') \<and>
      member_of (body req) ''name'' = Some (JString b) \<and>
      b \<in> set (map name (getBranches (repo w))) \<and> fault = None \<longrightarrow>
      post_checkout fault req w =
        (w\<lparr>files := tree_of (repo w) b, repo := (repo w)\<lparr>head := b\<rparr>,
            templateCache := [], sent := sent w @ [templatesUpdated]\<rparr>,
         Sent \<lparr>statusCode = 200, payload = Empty\<rparr>)"
    by (simp add: post_checkout_def checkoutBranch_def getBranches_def cache_clear_def
        broadcast_def)
  have c4: "truthy (member_of (body req) ''name'') \<and>
      member_of (body req) ''name'' = Some (JString b) \<and>
      b \<in> set (map name (getBranches (repo w))) \<and> fault = Some reason \<longrightarrow>
      post_checkout fault req w =
        (w, Sent \<lparr>statusCode = 409,
                  payload = ErrorMessage Conflict (''Unable to checkout branch: '' @ reason)\<rparr>)"
    by (simp add: post_checkout_def checkoutBranch_def getBranches_def)
  show ?thesis
    by (rule conjI [OF c1 conjI [OF c2 conjI [OF c3 c4]]])
qed

theorem checkout_replies_witness:
  "post_checkout None (request_to ''/api/templates/git/checkout'') sample_world =
     (sample_world,
      Sent \<lparr>statusCode = 400, payload = ErrorMessage BadRequest ''Branch name required''\<rparr>) \<and>
   post_checkout None (request_naming ''gone'') sample_world =
     (sample_world,
      Sent \<lparr>statusCode = 404, payload = ErrorMessage NotFound ''Branch not found''\<rparr>) \<and>
   post_checkout None request_numbered sample_world =
     (sample_world,
      Sent \<lparr>statusCode = 404, payload = ErrorMessage NotFound ''Branch not found''\<rparr>) \<and>
   post_checkout None (request_naming ''dev'') sample_world =
     (sample_world\<lparr>files := [([''ADT_A01.hbs''], ''v2'')],
        repo := sample_store\<lparr>head := ''dev''\<rparr>,
        templateCache := [], sent := [templatesUpdated]\<rparr>,
      Sent \<lparr>statusCode = 200, payload = Empty\<rparr>) \<and>
   post_checkout (Some ''locked'') (request_naming ''dev'') sample_world =
     (sample_world,
      Sent \<lparr>statusCode = 409,
            payload = ErrorMessage Conflict ''Unable to checkout branch: locked''\<rparr>)"
  using
    checkout_replies [where req = "request_to ''/api/templates/git/checkout''" and fault = None
      and w = sample_world]
    checkout_replies [where req = "request_naming ''gone''" and fault = None
      and w = sample_world]
    checkout_replies [where req = request_numbered and fault = None and w = sample_world]
    checkout_replies [where req = "request_naming ''dev''" and b = "''dev''" and fault = None
      and w = sample_world]
    checkout_replies [where req = "request_naming ''dev''" and b = "''dev''"
      and fault = "Some ''locked''" and reason = "''locked''" and w = sample_world]
  by (simp add: request_to_def request_naming_def request_numbered_def sample_world_def
      sample_store_def getBranches_def tree_of_def)




section \<open>The reset of the templates\<close>

lemma below_iff: "below q d \<longleftrightarrow> (\<exists>e \<in> set d. strict_prefix q (fst e))"
  by (force simp add: below_def list_ex_iff)

lemma nofile_iff: "map_of d q = None \<longleftrightarrow> (\<forall>e \<in> set d. fst e \<noteq> q)"
  by (auto simp add: map_of_eq_None_iff image_iff)

lemma renameSync_into_temp:
  assumes fl: "\<not> prefix ''.'' fl" and tmp: "prefix ''.'' tmp"
    and there: "\<exists>e \<in> set d. prefix [fl] (fst e)"
    and free: "\<forall>e \<in> set d. \<not> prefix [tmp, fl] (fst e)"
    and lone: "(\<exists>e \<in> set d. fst e = [fl]) \<Longrightarrow> \<forall>e \<in> set d. prefix [fl] (fst e) \<longrightarrow> fst e = [fl]"
  shows "renameSync [fl] [tmp, fl] d = Inr (map (moved tmp fl) d)"
proof -
  have ne: "fl \<noteq> tmp" using fl tmp by auto
  have nobelow: "\<not> below [tmp, fl] d"
    using free by (auto simp add: below_iff strict_prefix_def)
  have nofile: "map_of d [tmp, fl] = None"
    using free unfolding nofile_iff by auto
  have found: "map_of d [fl] \<noteq> None \<or> below [fl] d"
  proof -
    from there obtain e where e: "e \<in> set d" "prefix [fl] (fst e)" by blast
    show ?thesis
    proof (cases "fst e = [fl]")
      case True
      with e have "map_of d [fl] \<noteq> None" unfolding nofile_iff by blast
      then show ?thesis by blast
    next
      case False
      with e have "strict_prefix [fl] (fst e)" by (simp add: strict_prefix_def)
      with e show ?thesis by (auto simp add: below_iff)
    qed
  qed
  show ?thesis
  proof (cases "map_of d [fl] = None")
    case True
    have "map (\<lambda>(p, c). if prefix [fl] p then ([tmp, fl] @ drop (length [fl]) p, c) else (p, c)) d
            = map (moved tmp fl) d"
      by (rule map_cong) (auto simp add: moved_def prefix_def)
    with True found nobelow nofile ne show ?thesis
      by (simp add: renameSync_def strict_prefix_def)
  next
    case False
    then have isfile: "\<exists>e \<in> set d. fst e = [fl]" unfolding nofile_iff by blast
    have keep: "filter (\<lambda>(p, c). p \<noteq> [tmp, fl]) d = d"
      using free by (auto simp add: filter_id_conv)
    have "map (\<lambda>(p, c). if p = [fl] then ([tmp, fl], c) else (p, c)) d = map (moved tmp fl) d"
    proof (rule map_cong)
      fix e assume "e \<in> set d"
      with lone [OF isfile] have "prefix [fl] (fst e) \<longrightarrow> fst e = [fl]" by blast
      then show "(case e of (p, c) \<Rightarrow> if p = [fl] then ([tmp, fl], c) else (p, c)) = moved tmp fl e"
        by (cases e) (auto simp add: moved_def)
    qed simp
    with False nobelow ne keep show ?thesis
      by (simp add: renameSync_def strict_prefix_def)
  qed
qed

lemma prefix_one: "prefix [x] p \<longleftrightarrow> (\<exists>q. p = x # q)"
  by (cases p) auto

lemma prefix_two: "prefix [x, y] p \<longleftrightarrow> (\<exists>q. p = x # y # q)"
  by (cases p) (auto simp add: prefix_one)

lemma moved_other:
  assumes "fl' \<noteq> fl" and "prefix [fl'] (fst e)"
  shows "moved tmp fl e = e"
  using assms by (auto simp add: moved_def prefix_one)

lemma moved_cases:
  "(\<not> prefix [fl] (fst e) \<and> moved tmp fl e = e) \<or>
   (prefix [fl] (fst e) \<and> moved tmp fl e = (tmp # fst e, snd e))"
  by (simp add: moved_def)

lemma ready_moved:
  assumes r: "ready tmp fl' d" and ne: "fl' \<noteq> fl"
    and fl': "\<not> prefix ''.'' fl'" and tmp: "prefix ''.'' tmp"
  shows "ready tmp fl' (map (moved tmp fl) d)"
proof -
  have nt: "fl' \<noteq> tmp" using fl' tmp by auto
  from r obtain e where e: "e \<in> set d" "prefix [fl'] (fst e)"
    by (auto simp add: ready_def)
  then have "moved tmp fl e = e" using ne by (simp add: moved_other)
  with e have one: "\<exists>e \<in> set (map (moved tmp fl) d). prefix [fl'] (fst e)"
    by force
  have two: "\<forall>e \<in> set (map (moved tmp fl) d). \<not> prefix [tmp, fl'] (fst e)"
  proof
    fix e' assume "e' \<in> set (map (moved tmp fl) d)"
    then obtain e where e: "e \<in> set d" "e' = moved tmp fl e" by auto
    from r e have free: "\<not> prefix [tmp, fl'] (fst e)" by (simp add: ready_def)
    from moved_cases [of fl e tmp] show "\<not> prefix [tmp, fl'] (fst e')"
    proof
      assume "\<not> prefix [fl] (fst e) \<and> moved tmp fl e = e"
      with e free show ?thesis by simp
    next
      assume "prefix [fl] (fst e) \<and> moved tmp fl e = (tmp # fst e, snd e)"
      with e ne show ?thesis by (auto simp add: prefix_one)
    qed
  qed
  have same: "prefix [fl'] (fst (moved tmp fl e)) \<longleftrightarrow> prefix [fl'] (fst e)" for e
    using ne nt by (auto simp add: moved_def prefix_one)
  have same': "fst (moved tmp fl e) = [fl'] \<longleftrightarrow> fst e = [fl']" for e
    using ne nt by (auto simp add: moved_def prefix_one)
  have three: "(\<exists>e \<in> set (map (moved tmp fl) d). fst e = [fl']) \<longrightarrow>
      (\<forall>e \<in> set (map (moved tmp fl) d). prefix [fl'] (fst e) \<longrightarrow> fst e = [fl'])"
    using r by (simp add: ready_def same same')
  from one two three show ?thesis unfolding ready_def by blast
qed

lemma taken_Cons_moved:
  assumes "\<not> prefix ''.'' fl" and "prefix ''.'' tmp"
  shows "taken tmp fls (moved tmp fl e) = taken tmp (fl # fls) e"
  using assms by (auto simp add: taken_def moved_def prefix_one)

lemma taken_Cons_hidden:
  assumes "prefix ''.'' fl"
  shows "taken tmp (fl # fls) e = taken tmp fls e"
  using assms by (auto simp add: taken_def)

lemma forEach_rename_taken:
  assumes tmp: "prefix ''.'' tmp"
  shows "distinct fls \<Longrightarrow> (\<forall>fl \<in> set fls. \<not> prefix ''.'' fl \<longrightarrow> ready tmp fl d) \<Longrightarrow>
         forEach_rename tmp fls d = (map (taken tmp fls) d, None)"
proof (induction fls arbitrary: d)
  case Nil
  have "map (taken tmp []) d = d" by (rule map_idI) (simp add: taken_def)
  then show ?case by simp
next
  case (Cons fl fls)
  show ?case
  proof (cases "prefix ''.'' fl")
    case True
    from Cons.prems have "forEach_rename tmp fls d = (map (taken tmp fls) d, None)"
      by (intro Cons.IH) auto
    with True show ?thesis by (simp add: taken_Cons_hidden)
  next
    case False
    from Cons.prems False have "ready tmp fl d" by simp
    then have step: "renameSync [fl] [tmp, fl] d = Inr (map (moved tmp fl) d)"
      using False tmp by (intro renameSync_into_temp) (auto simp add: ready_def)
    have "\<forall>fl' \<in> set fls. \<not> prefix ''.'' fl' \<longrightarrow> ready tmp fl' (map (moved tmp fl) d)"
    proof (intro ballI impI)
      fix fl' assume a: "fl' \<in> set fls" "\<not> prefix ''.'' fl'"
      with Cons.prems have "ready tmp fl' d" "fl' \<noteq> fl" by auto
      with a tmp show "ready tmp fl' (map (moved tmp fl) d)" by (intro ready_moved)
    qed
    with Cons.prems
    have "forEach_rename tmp fls (map (moved tmp fl) d) =
            (map (taken tmp fls) (map (moved tmp fl) d), None)"
      by (intro Cons.IH) auto
    with False step tmp show ?thesis by (simp add: taken_Cons_moved)
  qed
qed

lemma in_take_one: "x \<in> set (take (Suc 0) p) \<longleftrightarrow> prefix [x] p"
  by (cases p) auto

lemma set_readdirSync: "set (readdirSync d) = {fl. \<exists>e \<in> set d. prefix [fl] (fst e)}"
proof (rule set_eqI)
  fix fl
  have "fl \<in> set (readdirSync d) \<longleftrightarrow> (\<exists>e \<in> set d. fl \<in> set (take (Suc 0) (fst e)))"
    by (simp add: readdirSync_def case_prod_unfold)
  then show "fl \<in> set (readdirSync d) \<longleftrightarrow> fl \<in> {fl. \<exists>e \<in> set d. prefix [fl] (fst e)}"
    by (simp add: in_take_one)
qed

lemma aside_pair: "aside tmp (p, c) = (if hidden p then (p, c) else (tmp # p, c))"
  by (simp add: aside_def)

lemma ready_readdirSync:
  assumes wf: "well_formed d" and fresh: "absent [tmp] d"
    and fl: "fl \<in> set (readdirSync d)"
  shows "ready tmp fl d"
proof -
  from fl have one: "\<exists>e \<in> set d. prefix [fl] (fst e)"
    by (simp add: set_readdirSync)
  from fresh have "\<forall>e \<in> set d. \<not> prefix [tmp] (fst e)"
    by (auto simp add: absent_def list_ex_iff)
  then have two: "\<forall>e \<in> set d. \<not> prefix [tmp, fl] (fst e)"
    by (auto simp add: prefix_one prefix_two)
  have three: "\<forall>e \<in> set d. prefix [fl] (fst e) \<longrightarrow> fst e = [fl]"
    if "\<exists>e \<in> set d. fst e = [fl]"
  proof -
    from that obtain e0 where "e0 \<in> set d" "fst e0 = [fl]" by blast
    with wf have "\<not> below [fl] d"
      by (auto simp add: well_formed_def list_all_iff)
    then show ?thesis
      by (auto simp add: below_iff strict_prefix_def)
  qed
  from one two three show ?thesis unfolding ready_def by blast
qed

lemma taken_readdirSync:
  assumes "e \<in> set d"
  shows "taken tmp (readdirSync d) e = aside tmp e"
proof (cases "fst e")
  case Nil
  then show ?thesis by (simp add: taken_def aside_def hidden_def)
next
  case (Cons fl q)
  then have "prefix [fl] (fst e)" by simp
  with assms have "fl \<in> set (readdirSync d)"
    unfolding set_readdirSync by blast
  with Cons show ?thesis
    by (auto simp add: taken_def aside_def hidden_def)
qed

lemma forEach_rename_aside:
  assumes wf: "well_formed d" and fresh: "absent [tmp] d" and tmp: "prefix ''.'' tmp"
  shows "forEach_rename tmp (readdirSync d) d = (map (aside tmp) d, None)"
proof -
  have "forEach_rename tmp (readdirSync d) d = (map (taken tmp (readdirSync d)) d, None)"
    using tmp
  proof (rule forEach_rename_taken)
    show "distinct (readdirSync d)" by (simp add: readdirSync_def)
    show "\<forall>fl \<in> set (readdirSync d). \<not> prefix ''.'' fl \<longrightarrow> ready tmp fl d"
      using wf fresh by (simp add: ready_readdirSync)
  qed
  moreover have "map (taken tmp (readdirSync d)) d = map (aside tmp) d"
    by (rule map_cong) (simp_all add: taken_readdirSync)
  ultimately show ?thesis by simp
qed

lemma ensureDirSync_absent: "absent q d \<Longrightarrow> ensureDirSync q d = Inr d"
  unfolding ensureDirSync_def absent_def nofile_iff list_ex_iff by auto

lemma map_of_aside_moved:
  assumes "absent [tmp] d" and "\<not> hidden p"
  shows "map_of (map (aside tmp) d) (tmp # p) = map_of d p"
  using assms
proof (induction d)
  case Nil
  then show ?case by simp
next
  case (Cons e d)
  from Cons.prems have here: "\<not> prefix [tmp] (fst e)" and rest: "absent [tmp] d"
    by (auto simp add: absent_def)
  with Cons have IH: "map_of (map (aside tmp) d) (tmp # p) = map_of d p" by simp
  show ?case
  proof (cases "hidden (fst e)")
    case True
    with here Cons.prems have "fst e \<noteq> tmp # p" "fst e \<noteq> p"
      by (auto simp add: prefix_one)
    with True IH show ?thesis by (cases e) (simp add: aside_pair)
  next
    case False
    with IH show ?thesis by (cases e) (simp add: aside_pair)
  qed
qed

lemma map_of_aside_hidden:
  assumes "hidden p" and "\<not> prefix [tmp] p"
  shows "map_of (map (aside tmp) d) p = map_of d p"
proof (induction d)
  case Nil
  then show ?case by simp
next
  case (Cons e d)
  show ?case
  proof (cases "hidden (fst e)")
    case True
    with Cons show ?thesis by (cases e) (simp add: aside_pair)
  next
    case False
    with assms have "fst e \<noteq> p" "tmp # fst e \<noteq> p"
      by (auto simp add: prefix_one)
    with False Cons show ?thesis by (cases e) (simp add: aside_pair)
  qed
qed

lemma reset_copied:
  assumes "well_formed (files w)" and "absent [tmp] (files w)"
    and "tmp = ''.temp'' @ decimal now"
  shows "post_UpdateBaseTemplates now base Copied w =
           (w\<lparr>files := AList.merge (map (aside tmp) (files w)) base,
               templateCache := [], sent := sent w @ [templatesUpdated]\<rparr>,
            Sent \<lparr>statusCode = 200, payload = Empty\<rparr>)"
  using assms
  by (simp add: post_UpdateBaseTemplates_def ensureDirSync_absent forEach_rename_aside
      ncp_def cache_clear_def broadcast_def)

lemma reset_failed:
  assumes "well_formed (files w)" and "absent [tmp] (files w)"
    and "tmp = ''.temp'' @ decimal now"
  shows "post_UpdateBaseTemplates now base (CopyError text missing) w =
           (w\<lparr>files := AList.merge (map (aside tmp) (files w))
                         (filter (\<lambda>(p, c). p \<notin> set missing) base)\<rparr>,
            Sent \<lparr>statusCode = 403, payload = ErrorMessage WriteError text\<rparr>)"
  using assms
  by (simp add: post_UpdateBaseTemplates_def ensureDirSync_absent forEach_rename_aside
      ncp_def)

text \<open>
  C6, as the code has it. Where the temporary folder \<open>.temp<now>\<close> is new, the reset moves
  every file of the template directory whose first name does not start with a dot to the
  same path below the temporary folder, with its text, and leaves the files whose first
  name starts with a dot where they are; then the base set is copied in. When the copy
  succeeds the cache is cleared, \<open>templatesUpdated\<close> is broadcast and the answer is 200;
  when it fails the answer is 403 with a \<open>WriteError\<close>, and neither the cache nor the
  worker pool hears of it.
\<close>

theorem reset_moves_aside_and_copies:
  assumes "well_formed (files w)"
    and "absent [tmp] (files w)"
    and "tmp = ''.temp'' @ decimal now"
  shows
    "post_UpdateBaseTemplates now base Copied w =
       (w\<lparr>files := AList.merge (map (aside tmp) (files w)) base,
           templateCache := [], sent := sent w @ [templatesUpdated]\<rparr>,
        Sent \<lparr>statusCode = 200, payload = Empty\<rparr>) \<and>
     (\<forall>p. \<not> hidden p \<and> map_of base (tmp # p) = None \<longrightarrow>
        map_of (files (fst (post_UpdateBaseTemplates now base Copied w))) (tmp # p)
          = map_of (files w) p) \<and>
     (\<forall>p. hidden p \<and> \<not> prefix [tmp] p \<and> map_of base p = None \<longrightarrow>
        map_of (files (fst (post_UpdateBaseTemplates now base Copied w))) p
          = map_of (files w) p) \<and>
     (\<forall>p c. map_of base p = Some c \<longrightarrow>
        map_of (files (fst (post_UpdateBaseTemplates now base Copied w))) p = Some c) \<and>
     snd (post_UpdateBaseTemplates now base (CopyError text missing) w) =
       Sent \<lparr>statusCode = 403, payload = ErrorMessage WriteError text\<rparr> \<and>
     templateCache (fst (post_UpdateBaseTemplates now base (CopyError text missing) w)) =
       templateCache w \<and>
     sent (fst (post_UpdateBaseTemplates now base (CopyError text missing) w)) = sent w"
proof -
  note ok = reset_copied [OF assms, of base]
  have moved: "map_of (files (fst (post_UpdateBaseTemplates now base Copied w))) (tmp # p)
                 = map_of (files w) p"
    if "\<not> hidden p" "map_of base (tmp # p) = None" for p
    using that assms(2)
    by (simp add: ok merge_conv' map_add_def map_of_aside_moved)
  have stays: "map_of (files (fst (post_UpdateBaseTemplates now base Copied w))) p
                 = map_of (files w) p"
    if "hidden p" "\<not> prefix [tmp] p" "map_of base p = None" for p
    using that
    by (simp add: ok merge_conv' map_add_def map_of_aside_hidden)
  have copied: "map_of (files (fst (post_UpdateBaseTemplates now base Copied w))) p = Some c"
    if "map_of base p = Some c" for p c
    using that by (simp add: ok merge_conv')
  note bad = reset_failed [OF assms, of base "text" missing]
  from ok moved stays copied bad show ?thesis by simp
qed

theorem reset_moves_aside_and_copies_witness:
  "well_formed (files dotted_world) \<and>
   absent [''.temp1583366400000''] (files dotted_world) \<and>
   post_UpdateBaseTemplates 1583366400000 base_templates Copied dotted_world =
     (dotted_world
        \<lparr>files := [([''.gitignore''], ''node_modules''),
                   ([''.temp1583366400000'', ''ADT_A01.hbs''], ''v1''),
                   ([''.temp1583366400000'', ''Sections'', ''PID.hbs''], ''pid''),
                   ([''ADT_A01.hbs''], ''base'')],
         templateCache := [], sent := [templatesUpdated]\<rparr>,
      Sent \<lparr>statusCode = 200, payload = Empty\<rparr>) \<and>
   snd (post_UpdateBaseTemplates 1583366400000 base_templates
          (CopyError ''ENOSPC'' [[''ADT_A01.hbs'']]) dotted_world) =
     Sent \<lparr>statusCode = 403, payload = ErrorMessage WriteError ''ENOSPC''\<rparr>"
proof -
  have name: "''.temp1583366400000'' = ''.temp'' @ decimal 1583366400000"
    by (simp add: decimal.simps)
  have wf: "well_formed (files dotted_world)"
    by (simp add: well_formed_def below_def dotted_world_def)
  have fresh: "absent [''.temp1583366400000''] (files dotted_world)"
    by (simp add: absent_def dotted_world_def)
  have merged: "AList.merge (map (aside ''.temp1583366400000'') (files dotted_world))
        base_templates =
      [([''.gitignore''], ''node_modules''),
       ([''.temp1583366400000'', ''ADT_A01.hbs''], ''v1''),
       ([''.temp1583366400000'', ''Sections'', ''PID.hbs''], ''pid''),
       ([''ADT_A01.hbs''], ''base'')]"
    by (simp add: aside_def hidden_def dotted_world_def AList.merge_def base_templates_def)
  have quiet: "sent dotted_world = []"
    by (simp add: dotted_world_def)
  note all = reset_moves_aside_and_copies
    [OF wf fresh name, of base_templates "''ENOSPC''" "[[''ADT_A01.hbs'']]"]
  from all have
    "post_UpdateBaseTemplates 1583366400000 base_templates Copied dotted_world =
       (dotted_world
          \<lparr>files := AList.merge (map (aside ''.temp1583366400000'') (files dotted_world))
             base_templates,
           templateCache := [], sent := sent dotted_world @ [templatesUpdated]\<rparr>,
        Sent \<lparr>statusCode = 200, payload = Empty\<rparr>)"
    by (rule conjunct1)
  then have good:
    "post_UpdateBaseTemplates 1583366400000 base_templates Copied dotted_world =
       (dotted_world
          \<lparr>files := [([''.gitignore''], ''node_modules''),
                     ([''.temp1583366400000'', ''ADT_A01.hbs''], ''v1''),
                     ([''.temp1583366400000'', ''Sections'', ''PID.hbs''], ''pid''),
                     ([''ADT_A01.hbs''], ''base'')],
           templateCache := [], sent := [templatesUpdated]\<rparr>,
        Sent \<lparr>statusCode = 200, payload = Empty\<rparr>)"
    by (simp only: merged quiet append_Nil)
  from all have bad:
    "snd (post_UpdateBaseTemplates 1583366400000 base_templates
            (CopyError ''ENOSPC'' [[''ADT_A01.hbs'']]) dotted_world) =
       Sent \<lparr>statusCode = 403, payload = ErrorMessage WriteError ''ENOSPC''\<rparr>"
    by blast
  from wf fresh good bad show ?thesis by blast
qed

text \<open>
  The claim C6 as it is written fails: \<open>.gitignore\<close> is an existing file of the template
  directory, and the reset leaves it where it is; nothing of that name is in the
  temporary folder.
\<close>

theorem reset_moves_every_file_counterexample:
  "map_of (files dotted_world) [''.gitignore''] = Some ''node_modules'' \<and>
   files (fst (post_UpdateBaseTemplates 1583366400000 base_templates Copied dotted_world)) =
     [([''.gitignore''], ''node_modules''),
      ([''.temp1583366400000'', ''ADT_A01.hbs''], ''v1''),
      ([''.temp1583366400000'', ''Sections'', ''PID.hbs''], ''pid''),
      ([''ADT_A01.hbs''], ''base'')] \<and>
   map_of (files (fst (post_UpdateBaseTemplates 1583366400000 base_templates Copied
      dotted_world))) [''.temp1583366400000'', ''.gitignore''] = None"
  by (simp add: post_UpdateBaseTemplates_def decimal.simps ensureDirSync_def readdirSync_def
      renameSync_def below_def ncp_def AList.merge_def base_templates_def dotted_world_def
      broadcast_def cache_clear_def Let_def)

end
